theory Spec2Isabelle
  imports Main "HOL-Library.AList"
begin

section \<open>Exceptions, the outside world and the library calls\<close>

text \<open>
  The script raises one exception class of its own, \<open>ScriptError\<close>, a direct subclass of
  \<open>BaseException\<close> with the three read-only properties \<open>title\<close>, \<open>details\<close> and
  \<open>error_code\<close>. The other constructors are the built-in exceptions that the statements of
  the script can raise: a missing \<open>dict\<close> key, a list index out of range, \<open>next\<close> on an
  exhausted reader, a missing or already existing path, bytes that are not UTF-8 handed to
  \<open>decode\<close>, and whatever \<open>subprocess.run\<close> raises when it cannot start the program at
  all.
\<close>

datatype exn =
    ScriptError (title: string) (details: string) (error_code: int)
  | KeyError string
  | IndexError
  | StopIteration
  | FileNotFoundError string
  | FileExistsError string
  | UnicodeDecodeError
  | SpawnFailure "string list"

fun is_ScriptError :: "exn \<Rightarrow> bool" where
  "is_ScriptError (ScriptError t d c) = True"
| "is_ScriptError _ = False"

text \<open>
  The file system: the text of every regular file and the set of directories, both keyed by
  the path as the script writes it. Paths are compared as strings.
\<close>

record filesystem =
  files :: "string \<rightharpoonup> string"
  dirs :: "string \<Rightarrow> bool"

text \<open>What \<open>click.echo\<close> is given: a plain message, or one wrapped by
  \<open>click.style(..., fg='red')\<close>.\<close>

datatype echo = Plain string | Red string

text \<open>
  The world the script acts on: the file system, the argument lists handed to
  \<open>subprocess.run\<close> so far, the messages echoed so far and the step titles the progress bar
  has been given so far.
\<close>

record world =
  fs :: filesystem
  run_calls :: "string list list"
  echoed :: "echo list"
  shown :: "string list"

text \<open>
  An external process either terminates with a return code, having written the bytes of its
  merged standard output and standard error, or is never started.
\<close>

datatype process = Exited int string | NotStarted

text \<open>
  The parts of the environment that are not code of the script are parameters of the model:
  what an external program does to the file system and how it exits, the rows that
  \<open>csv.reader\<close> yields from the text of a file, and the paths \<open>glob.glob\<close> returns for a
  pattern.
\<close>

record env =
  spawn :: "string list \<Rightarrow> filesystem \<Rightarrow> process \<times> filesystem"
  csv_reader :: "string \<Rightarrow> string list list"
  glob :: "string \<Rightarrow> filesystem \<Rightarrow> string list"

text \<open>\<open>sep.join(xs)\<close> of Python's \<open>str\<close>.\<close>

fun join :: "string \<Rightarrow> string list \<Rightarrow> string" where
  "join sep [] = []"
| "join sep [x] = x"
| "join sep (x # y # ys) = x @ sep @ join sep (y # ys)"

section \<open>Command runner\<close>

text \<open>
  \<open>bytes.decode()\<close> with its defaults: UTF-8, strict. A \<open>str\<close> is kept here as its UTF-8
  encoding, so decoding hands back the bytes it was given when they are well-formed UTF-8
  (no stray continuation byte, no truncated or overlong sequence, no surrogate, nothing above
  U+10FFFF) and raises \<open>UnicodeDecodeError\<close> otherwise.
\<close>

definition cont :: "nat \<Rightarrow> bool" where
  "cont b = (0x80 \<le> b \<and> b \<le> 0xBF)"

fun well_formed_utf8 :: "nat list \<Rightarrow> bool" where
  "well_formed_utf8 [] = True"
| "well_formed_utf8 (a # bs) =
     (if a < 0x80 then well_formed_utf8 bs
      else if 0xC2 \<le> a \<and> a \<le> 0xDF then
        (case bs of b # cs \<Rightarrow> cont b \<and> well_formed_utf8 cs | _ \<Rightarrow> False)
      else if 0xE0 \<le> a \<and> a \<le> 0xEF then
        (case bs of
           b # c # ds \<Rightarrow>
             (if a = 0xE0 then 0xA0 \<le> b \<and> b \<le> 0xBF
              else if a = 0xED then 0x80 \<le> b \<and> b \<le> 0x9F
              else cont b) \<and> cont c \<and> well_formed_utf8 ds
         | _ \<Rightarrow> False)
      else if 0xF0 \<le> a \<and> a \<le> 0xF4 then
        (case bs of
           b # c # d # es \<Rightarrow>
             (if a = 0xF0 then 0x90 \<le> b \<and> b \<le> 0xBF
              else if a = 0xF4 then 0x80 \<le> b \<and> b \<le> 0x8F
              else cont b) \<and> cont c \<and> cont d \<and> well_formed_utf8 es
         | _ \<Rightarrow> False)
      else False)"

definition decode :: "string \<Rightarrow> exn + string" where
  "decode bytes =
     (if well_formed_utf8 (map of_char bytes) then Inr bytes else Inl UnicodeDecodeError)"

text \<open>
  \<open>run_command\<close>: the title is built first, then the captured output is decoded, then the
  \<open>ScriptError\<close> is raised; an output that does not decode raises \<open>UnicodeDecodeError\<close>
  in its place. With return code 0 the output is not looked at.
\<close>

definition run_command :: "env \<Rightarrow> string list \<Rightarrow> world \<Rightarrow> (exn + unit) \<times> world" where
  "run_command E command_args w =
     (case spawn E command_args (fs w) of
        (NotStarted, fs') \<Rightarrow>
          (Inl (SpawnFailure command_args),
           w\<lparr>fs := fs', run_calls := run_calls w @ [command_args]\<rparr>)
      | (Exited returncode out, fs') \<Rightarrow>
          (if returncode \<noteq> 0
           then (case decode out of
                   Inl e \<Rightarrow> Inl e
                 | Inr decoded \<Rightarrow>
                     Inl (ScriptError (''Error executing command '' @ join '' '' command_args)
                            decoded 2))
           else Inr (),
           w\<lparr>fs := fs', run_calls := run_calls w @ [command_args]\<rparr>))"

section \<open>Steps and the execution context\<close>

text \<open>
  One row of \<open>csv.DictReader\<close>: the cells under the field names (a cell is \<open>None\<close> when the
  row is shorter than the header) and, when the row is longer than the header, the surplus
  cells, which Python stores under the key \<open>None\<close>.
\<close>

record fixup =
  named :: "(string \<times> string option) list"
  extra :: "string list option"

text \<open>
  The named tuple \<open>ScriptExecutionContext\<close>. Its last field is the one \<open>dict\<close> the steps
  share; a step that stores into it returns the updated context. A key is \<open>None\<close> when the
  \<open>Reference\<close> cell of a row is missing.
\<close>

record ScriptExecutionContext =
  kicad_path :: string
  "output" :: string
  pcb :: string
  schema :: string
  project_base :: string
  pos_fixups :: "(string option \<times> fixup) list"

type_synonym step_fn =
  "env \<Rightarrow> ScriptExecutionContext \<Rightarrow> world \<Rightarrow> (exn + unit) \<times> ScriptExecutionContext \<times> world"

definition generate_gerbers :: step_fn where
  "generate_gerbers E ec w =
     (case run_command E
        [kicad_path ec,
         ''pcb'', ''export'', ''gerbers'',
         ''-l'', ''F.Cu,F.Paste,F.Silkscreen,F.Mask,B.Cu,B.Paste,B.Silkscreen,B.Mask,Edge.Cuts'',
         ''--no-x2'',
         ''--subtract-soldermask'',
         ''-o'', output ec,
         pcb ec] w of
        (r, w') \<Rightarrow> (r, ec, w'))"

definition generate_drill :: step_fn where
  "generate_drill E ec w =
     (case run_command E
        [kicad_path ec,
         ''pcb'', ''export'', ''drill'',
         ''--map-format'', ''gerberx2'',
         ''-o'', output ec @ ''/'',
         pcb ec] w of
        (r, w') \<Rightarrow> (r, ec, w'))"

definition archive_pcb :: step_fn where
  "archive_pcb E ec w =
     (case run_command E
        ([''zip'',
          ''-o'', output ec @ ''/'' @ project_base ec @ ''-gerbers.zip''] @
         glob E (output ec @ ''/*.g*'') (fs w) @
         glob E (output ec @ ''/*.drl'') (fs w)) w of
        (r, w') \<Rightarrow> (r, ec, w'))"

definition generate_bom :: step_fn where
  "generate_bom E ec w =
     (case run_command E
        [kicad_path ec,
         ''sch'', ''export'', ''bom'',
         ''--fields'', ''Value,Reference,Footprint,LCSC'',
         ''--group-by'', ''Value'',
         ''--labels'', ''Comment,Designator,Footprint,LCSC Part Number'',
         ''--ref-range-delimiter'', [],
         ''-o'', output ec @ ''/'' @ project_base ec @ ''-bom.csv'',
         schema ec] w of
        (r, w') \<Rightarrow> (r, ec, w'))"

subsection \<open>Files\<close>

text \<open>\<open>open(path)\<close> followed by reading: the text of the file, or \<open>FileNotFoundError\<close>.\<close>

definition open_read :: "string \<Rightarrow> world \<Rightarrow> exn + string" where
  "open_read p w =
     (case files (fs w) p of None \<Rightarrow> Inl (FileNotFoundError p) | Some text \<Rightarrow> Inr text)"

text \<open>What is on disk once a file opened with \<open>open(path, "w")\<close> is closed again.\<close>

definition write_file :: "string \<Rightarrow> string \<Rightarrow> world \<Rightarrow> world" where
  "write_file p text w = w\<lparr>fs := (fs w)\<lparr>files := (files (fs w))(p \<mapsto> text)\<rparr>\<rparr>"

text \<open>\<open>os.remove(path)\<close>: raises when there is no such file, removes it otherwise.\<close>

definition os_remove :: "string \<Rightarrow> world \<Rightarrow> (exn + unit) \<times> world" where
  "os_remove p w =
     (case files (fs w) p of
        None \<Rightarrow> (Inl (FileNotFoundError p), w)
      | Some text \<Rightarrow> (Inr (), w\<lparr>fs := (fs w)\<lparr>files := (files (fs w))(p := None)\<rparr>\<rparr>))"

text \<open>
  \<open>try: ... finally: os.remove(path)\<close>, given the outcome of the body: the removal runs
  whatever the body did, and an exception of the removal replaces the outcome of the body.
\<close>

definition finally_remove ::
  "string \<Rightarrow> (exn + unit) \<times> ScriptExecutionContext \<times> world \<Rightarrow>
   (exn + unit) \<times> ScriptExecutionContext \<times> world" where
  "finally_remove p body =
     (case body of
        (r, ec, w) \<Rightarrow>
          (case os_remove p w of
             (Inl e, w') \<Rightarrow> (Inl e, ec, w')
           | (Inr u, w') \<Rightarrow> (r, ec, w')))"

subsection \<open>Fixup table loader\<close>

text \<open>The \<open>dict\<close> that \<open>DictReader\<close> builds from the field names and one row.\<close>

definition dict_row :: "string list \<Rightarrow> string list \<Rightarrow> fixup" where
  "dict_row fieldnames row =
     \<lparr>named =
        fold (\<lambda>key d. AList.update key None d) (drop (length row) fieldnames)
          (fold (\<lambda>(key, cell) d. AList.update key (Some cell) d) (zip fieldnames row) []),
      extra =
        (if length fieldnames < length row then Some (drop (length fieldnames) row) else None)\<rparr>"

text \<open>
  \<open>csv.DictReader\<close> over the rows of the underlying reader: the first row gives the field
  names, rows without any cell are skipped.
\<close>

fun DictReader :: "string list list \<Rightarrow> fixup list" where
  "DictReader [] = []"
| "DictReader (fieldnames # rows) = map (dict_row fieldnames) (filter (\<lambda>row. row \<noteq> []) rows)"

text \<open>\<open>d[key]\<close> on a row of the \<open>DictReader\<close>, for a key that is a string.\<close>

definition getitem :: "fixup \<Rightarrow> string \<Rightarrow> exn + string option" where
  "getitem d key = (case map_of (named d) key of None \<Rightarrow> Inl (KeyError key) | Some v \<Rightarrow> Inr v)"

text \<open>The loop \<open>for fixup in csv.DictReader(...): ec.pos_fixups[fixup['Reference']] = fixup\<close>.\<close>

fun store_fixups ::
  "fixup list \<Rightarrow> (string option \<times> fixup) list \<Rightarrow> (exn + unit) \<times> (string option \<times> fixup) list" where
  "store_fixups [] table = (Inr (), table)"
| "store_fixups (fixup # rest) table =
     (case getitem fixup ''Reference'' of
        Inl e \<Rightarrow> (Inl e, table)
      | Inr key \<Rightarrow> store_fixups rest (AList.update key fixup table))"

definition pos_fixups_filename :: "ScriptExecutionContext \<Rightarrow> string" where
  "pos_fixups_filename ec = output ec @ ''/pos-fixups.csv''"

text \<open>The argument list of the export that the loader runs.\<close>

definition export_fixups_args :: "ScriptExecutionContext \<Rightarrow> string list" where
  "export_fixups_args ec =
     [kicad_path ec,
      ''sch'', ''export'', ''bom'',
      ''--fields'', ''Reference,PosRotAdjust'',
      ''-o'', pos_fixups_filename ec, schema ec]"

definition load_pos_fixups :: step_fn where
  "load_pos_fixups E ec w =
     finally_remove (pos_fixups_filename ec)
       (case run_command E (export_fixups_args ec) w of
          (Inl e, w') \<Rightarrow> (Inl e, ec, w')
        | (Inr u, w') \<Rightarrow>
            (case open_read (pos_fixups_filename ec) w' of
               Inl e \<Rightarrow> (Inl e, ec, w')
             | Inr text \<Rightarrow>
                 (case store_fixups (DictReader (csv_reader E text)) (pos_fixups ec) of
                    (r, table) \<Rightarrow> (r, ec\<lparr>pos_fixups := table\<rparr>, w'))))"

subsection \<open>Position reconciler\<close>

text \<open>Python's \<open>xs[i]\<close> and \<open>xs[i] = v\<close> on a list: both raise \<open>IndexError\<close> out of range.\<close>

definition list_get :: "string list \<Rightarrow> nat \<Rightarrow> exn + string" where
  "list_get xs i = (if i < length xs then Inr (xs ! i) else Inl IndexError)"

definition list_set :: "string list \<Rightarrow> nat \<Rightarrow> string \<Rightarrow> exn + string list" where
  "list_set xs i v = (if i < length xs then Inr (xs[i := v]) else Inl IndexError)"

text \<open>Sequencing: the second computation runs only if the first raised nothing.\<close>

definition and_then :: "exn + 'a \<Rightarrow> ('a \<Rightarrow> exn + 'b) \<Rightarrow> exn + 'b" where
  "and_then r f = (case r of Inl e \<Rightarrow> Inl e | Inr x \<Rightarrow> f x)"

text \<open>The f-string that wraps a field in double quotes.\<close>

definition quoted :: "string \<Rightarrow> string" where
  "quoted s = [CHR 0x22] @ s @ [CHR 0x22]"

text \<open>\<open>pos_line[i] = f'"{pos_line[i]}"'\<close>\<close>

definition quote_field :: "nat \<Rightarrow> string list \<Rightarrow> exn + string list" where
  "quote_field i pos_line = and_then (list_get pos_line i) (\<lambda>v. list_set pos_line i (quoted v))"

text \<open>A \<open>dict\<close> is true in a condition exactly when it has an entry.\<close>

definition truthy :: "fixup \<Rightarrow> bool" where
  "truthy d = (named d \<noteq> [] \<or> extra d \<noteq> None)"

text \<open>
  \<open>fixup['PosRotAdjust'] or pos_line[5]\<close>: the right operand is evaluated only when the cell
  is \<open>None\<close> or the empty string.
\<close>

definition adjust_or :: "string option \<Rightarrow> string list \<Rightarrow> exn + string" where
  "adjust_or adjust pos_line =
     (case adjust of
        Some (c # cs) \<Rightarrow> Inr (c # cs)
      | _ \<Rightarrow> list_get pos_line 5)"

text \<open>
  The body of the loop over the rows of the raw export, up to the two writes: the lookup of
  the row's reference in the shared table, the rotation taken from the fixup, and the quotes
  around the first three fields.
\<close>

definition fixup_pos_line :: "(string option \<times> fixup) list \<Rightarrow> string list \<Rightarrow> exn + string list" where
  "fixup_pos_line table pos_line =
     and_then (list_get pos_line 0) (\<lambda>ref.
       (case map_of table (Some ref) of
          None \<Rightarrow> Inl (KeyError ref)
        | Some fixup \<Rightarrow>
            and_then
              (if truthy fixup
               then and_then (getitem fixup ''PosRotAdjust'') (\<lambda>adjust.
                      and_then (adjust_or adjust pos_line) (\<lambda>rot. list_set pos_line 5 rot))
               else Inr pos_line)
              (\<lambda>l. and_then (quote_field 0 l) (\<lambda>l. and_then (quote_field 1 l) (quote_field 2)))))"

text \<open>
  The loop itself, with the text written to the final file so far. A row that raises ends the
  loop; what was written before stays in the file.
\<close>

fun write_pos_lines ::
  "(string option \<times> fixup) list \<Rightarrow> string list list \<Rightarrow> string \<Rightarrow> (exn + unit) \<times> string" where
  "write_pos_lines table [] text = (Inr (), text)"
| "write_pos_lines table (pos_line # rest) text =
     (case fixup_pos_line table pos_line of
        Inl e \<Rightarrow> (Inl e, text)
      | Inr l \<Rightarrow> write_pos_lines table rest (text @ join '','' l @ ''\<newline>''))"

definition pos_header :: string where
  "pos_header =
     join '','' [''Designator'', ''Val'', ''Package'', ''Mid X'', ''Mid Y'', ''Rotation'', ''Layer'']
       @ ''\<newline>''"

text \<open>
  The rows are those the reader yields from the text the raw export had when it was opened;
  \<open>next(pre_fixup_pos_reader)\<close> raises \<open>StopIteration\<close> when there is not even a header
  row, before the final file is opened.
\<close>

definition pre_fixup_pos_filename :: "ScriptExecutionContext \<Rightarrow> string" where
  "pre_fixup_pos_filename ec = output ec @ ''/pre-fixup-pos.pos''"

definition pos_filename :: "ScriptExecutionContext \<Rightarrow> string" where
  "pos_filename ec = output ec @ ''/'' @ project_base ec @ ''.pos''"

text \<open>The argument list of the export that the reconciler runs.\<close>

definition export_pos_args :: "ScriptExecutionContext \<Rightarrow> string list" where
  "export_pos_args ec =
     [kicad_path ec,
      ''pcb'', ''export'', ''pos'',
      ''--format'', ''csv'',
      ''--units'', ''mm'',
      ''--side'', ''front'',
      ''-o'', pre_fixup_pos_filename ec,
      pcb ec]"

definition generate_pos :: step_fn where
  "generate_pos E ec w =
     finally_remove (pre_fixup_pos_filename ec)
       (case run_command E (export_pos_args ec) w of
          (Inl e, w') \<Rightarrow> (Inl e, ec, w')
        | (Inr u, w') \<Rightarrow>
            (case open_read (pre_fixup_pos_filename ec) w' of
               Inl e \<Rightarrow> (Inl e, ec, w')
             | Inr text \<Rightarrow>
                 (case csv_reader E text of
                    [] \<Rightarrow> (Inl StopIteration, ec, w')
                  | header # rows \<Rightarrow>
                      (case write_pos_lines (pos_fixups ec) rows pos_header of
                         (r, written) \<Rightarrow> (r, ec, write_file (pos_filename ec) written w')))))"

section \<open>Pipeline\<close>

text \<open>The decorator \<open>script_step(title)\<close> attaches the title to the function.\<close>

definition script_step :: "string \<Rightarrow> step_fn \<Rightarrow> string \<times> step_fn" where
  "script_step t fn = (t, fn)"

definition fab_steps :: "(string \<times> step_fn) list" where
  "fab_steps =
     [script_step ''Generate gerbers'' generate_gerbers,
      script_step ''Generate drill'' generate_drill,
      script_step ''Archive PCB fabrication outputs'' archive_pcb,
      script_step ''Generate BOM'' generate_bom,
      script_step ''Load pick-and-place fixup mappings'' load_pos_fixups,
      script_step ''Generate and fixup pick-and-place'' generate_pos]"

text \<open>
  \<open>for step in steps: step(ec)\<close> under the progress bar: the bar is handed the step (the model
  records the title that \<open>item_show_func\<close> computes from it), then the step runs; an
  exception leaves the loop.
\<close>

fun run_steps ::
  "env \<Rightarrow> (string \<times> step_fn) list \<Rightarrow> ScriptExecutionContext \<Rightarrow> world \<Rightarrow>
   (exn + unit) \<times> ScriptExecutionContext \<times> world" where
  "run_steps E [] ec w = (Inr (), ec, w)"
| "run_steps E ((t, step) # rest) ec w =
     (case step E ec (w\<lparr>shown := shown w @ [t]\<rparr>) of
        (Inl e, ec', w') \<Rightarrow> (Inl e, ec', w')
      | (Inr u, ec', w') \<Rightarrow> run_steps E rest ec' w')"

section \<open>Entry point\<close>

text \<open>\<open>os.path.basename\<close> and \<open>os.path.join\<close> of two components, on POSIX paths.\<close>

definition basename :: "string \<Rightarrow> string" where
  "basename p = rev (takeWhile (\<lambda>c. c \<noteq> CHR ''/'') (rev p))"

definition path_join :: "string \<Rightarrow> string \<Rightarrow> string" where
  "path_join a b =
     (if b \<noteq> [] \<and> hd b = CHR ''/'' then b
      else if a = [] \<or> last a = CHR ''/'' then a @ b
      else a @ ''/'' @ b)"

definition KicadProbeList :: "string list" where
  "KicadProbeList = [''/Applications/KiCad/KiCad.app/Contents/MacOS/kicad-cli'']"

definition probe_kicad_path :: "world \<Rightarrow> string" where
  "probe_kicad_path w =
     (case filter (\<lambda>test_path. files (fs w) test_path \<noteq> None) KicadProbeList of
        [] \<Rightarrow> ''kicad-cli''
      | test_path # _ \<Rightarrow> test_path)"

text \<open>\<open>x\<close> where the script writes \<open>if not x: x = default\<close> for an optional option.\<close>

definition or_default :: "string option \<Rightarrow> string \<Rightarrow> string" where
  "or_default x d = (case x of Some (c # cs) \<Rightarrow> c # cs | _ \<Rightarrow> d)"

definition click_echo :: "echo \<Rightarrow> world \<Rightarrow> world" where
  "click_echo m w = w\<lparr>echoed := echoed w @ [m]\<rparr>"

text \<open>
  \<open>shutil.rmtree\<close> removes a directory with all that lies below it; \<open>os.makedirs\<close> raises
  when the path exists already and creates the directory otherwise (the parents it creates
  on the way are not recorded).
\<close>

definition below :: "string \<Rightarrow> string \<Rightarrow> bool" where
  "below d p = (take (length d + 1) p = d @ ''/'')"

definition rmtree :: "string \<Rightarrow> world \<Rightarrow> world" where
  "rmtree d w =
     w\<lparr>fs := \<lparr>files = (\<lambda>p. if below d p then None else files (fs w) p),
               dirs = (\<lambda>p. p \<noteq> d \<and> \<not> below d p \<and> dirs (fs w) p)\<rparr>\<rparr>"

definition os_makedirs :: "string \<Rightarrow> world \<Rightarrow> (exn + unit) \<times> world" where
  "os_makedirs d w =
     (if files (fs w) d \<noteq> None \<or> dirs (fs w) d then (Inl (FileExistsError d), w)
      else (Inr (), w\<lparr>fs := (fs w)\<lparr>dirs := (dirs (fs w))(d := True)\<rparr>\<rparr>))"

text \<open>
  The \<open>try\<close> block of \<open>generate_fab\<close>, from the test of the output directory on: its outcome
  is an exception or normal completion.
\<close>

definition fab_body ::
  "env \<Rightarrow> string \<Rightarrow> string \<Rightarrow> string \<Rightarrow> string \<Rightarrow> bool \<Rightarrow> string \<Rightarrow> world \<Rightarrow>
   (exn + unit) \<times> world" where
  "fab_body E project schema' pcb' output' force kicad_path' w =
     (if dirs (fs w) output' \<and> \<not> force
      then (Inl (ScriptError (quoted output' @ '' already exists.'')
                   ''Use --fore to remove and re-create, or --output to specify a different path''
                   1), w)
      else
        (let w1 = (if dirs (fs w) output' then rmtree output' w else w);
             project_base' = basename project
         in case os_makedirs output' w1 of
              (Inl e, w2) \<Rightarrow> (Inl e, w2)
            | (Inr u, w2) \<Rightarrow>
                (let w3 = click_echo (Plain (''Using '' @ kicad_path' @
                            '' to generate fabraction outputs for PCB '' @ pcb' @
                            '' and schema '' @ schema')) w2;
                     ec = \<lparr>kicad_path = kicad_path', output = output', pcb = pcb',
                           schema = schema', project_base = project_base', pos_fixups = []\<rparr>
                 in case run_steps E fab_steps ec w3 of
                      (Inl e, ec', w4) \<Rightarrow> (Inl e, w4)
                    | (Inr u, ec', w4) \<Rightarrow> (Inr (), click_echo (Plain ''Done.'') w4))))"

text \<open>
  \<open>generate_fab\<close>: the handler \<open>except ScriptError as se\<close> prints the title in red and the
  details and returns the error code; any other exception leaves the function; without an
  exception the function returns \<open>None\<close>.
\<close>

definition generate_fab ::
  "env \<Rightarrow> string \<Rightarrow> string option \<Rightarrow> string option \<Rightarrow> string \<Rightarrow> bool \<Rightarrow> string option \<Rightarrow>
   world \<Rightarrow> (exn + int option) \<times> world" where
  "generate_fab E project schema' pcb' output' force kicad_path' w =
     (let kicad_path1 = or_default kicad_path' (probe_kicad_path w);
          schema1 = or_default schema' (basename project @ ''.kicad_sch'');
          pcb1 = or_default pcb' (basename project @ ''.kicad_pcb'');
          schema2 = path_join project schema1;
          pcb2 = path_join project pcb1
      in case fab_body E project schema2 pcb2 output' force kicad_path1 w of
           (Inr u, w') \<Rightarrow> (Inr None, w')
         | (Inl (ScriptError t d c), w') \<Rightarrow>
             (Inr (Some c), click_echo (Plain d) (click_echo (Red t) w'))
         | (Inl e, w') \<Rightarrow> (Inl e, w'))"

text \<open>
  The script ends with the call \<open>generate_fab()\<close> of the click command. Called this way,
  click runs the function, makes no use of the value it returns and ends the process with
  status 0; an exception that leaves the function is none that click handles, so the
  interpreter ends the process with status 1. The result is the exit status of the process.
\<close>

definition main ::
  "env \<Rightarrow> string \<Rightarrow> string option \<Rightarrow> string option \<Rightarrow> string \<Rightarrow> bool \<Rightarrow> string option \<Rightarrow>
   world \<Rightarrow> int \<times> world" where
  "main E project schema' pcb' output' force kicad_path' w =
     (case generate_fab E project schema' pcb' output' force kicad_path' w of
        (Inr returned, w') \<Rightarrow> (0, w')
      | (Inl e, w') \<Rightarrow> (1, w'))"

section \<open>The reconciled row in the words of the specification\<close>



section \<open>Concrete inputs\<close>

text \<open>
  A reader for text without quote characters and carriage returns, where \<open>csv.reader\<close>
  yields for each line the fields between its commas, and no field at all for an empty line.
\<close>

fun split_at :: "char \<Rightarrow> string \<Rightarrow> string list" where
  "split_at c [] = [[]]"
| "split_at c (x # xs) =
     (if x = c then [] # split_at c xs
      else (case split_at c xs of [] \<Rightarrow> [[x]] | y # ys \<Rightarrow> (x # y) # ys))"

definition text_lines :: "string \<Rightarrow> string list" where
  "text_lines text =
     (let ls = split_at CHR 0x0A text in if last ls = [] then butlast ls else ls)"

definition plain_reader :: "string \<Rightarrow> string list list" where
  "plain_reader text = map (\<lambda>l. if l = [] then [] else split_at CHR '','' l) (text_lines text)"

text \<open>
  A stand-in for the external programs. The export named \<open>bad\<close> (the word after
  \<open>export\<close>) exits with status 3 after printing \<open>boom\<close> and writes nothing; the position
  export and the export of the fixup columns write the given texts to the path that follows
  \<open>-o\<close>; every other command exits with status 0 and leaves the files alone.
\<close>

definition out_arg :: "string list \<Rightarrow> string" where
  "out_arg args = (case dropWhile (\<lambda>a. a \<noteq> ''-o'') args of a # p # rest \<Rightarrow> p | _ \<Rightarrow> [])"

definition writes :: "string \<Rightarrow> string \<Rightarrow> filesystem \<Rightarrow> filesystem" where
  "writes p text f = f\<lparr>files := (files f)(p \<mapsto> text)\<rparr>"

definition cad_tool ::
  "string \<Rightarrow> string \<Rightarrow> string \<Rightarrow> string list \<Rightarrow> filesystem \<Rightarrow> process \<times> filesystem" where
  "cad_tool bad fixups_text pos_text args f =
     (if take 1 (drop 3 args) = [bad] then (Exited 3 ''boom'', f)
      else if take 1 (drop 3 args) = [''pos''] then (Exited 0 [], writes (out_arg args) pos_text f)
      else if take 1 (drop 5 args) = [''Reference,PosRotAdjust'']
        then (Exited 0 [], writes (out_arg args) fixups_text f)
      else (Exited 0 [], f))"

definition example_env :: "string \<Rightarrow> string \<Rightarrow> string \<Rightarrow> env" where
  "example_env bad fixups_text pos_text =
     \<lparr>spawn = cad_tool bad fixups_text pos_text, csv_reader = plain_reader,
      glob = (\<lambda>pattern f. [])\<rparr>"

text \<open>An environment in which every command exits with status 3 after writing the given
  bytes.\<close>

definition failing_env :: "string \<Rightarrow> env" where
  "failing_env out =
     \<lparr>spawn = (\<lambda>args f. (Exited 3 out, f)), csv_reader = plain_reader,
      glob = (\<lambda>pattern f. [])\<rparr>"

definition fresh_world :: world where
  "fresh_world =
     \<lparr>fs = \<lparr>files = Map.empty, dirs = (\<lambda>p. False)\<rparr>, run_calls = [], echoed = [], shown = []\<rparr>"

definition example_ec :: "(string option \<times> fixup) list \<Rightarrow> ScriptExecutionContext" where
  "example_ec table =
     \<lparr>kicad_path = ''kicad-cli'', output = ''fab'', pcb = ''board/board.kicad_pcb'',
      schema = ''board/board.kicad_sch'', project_base = ''board'', pos_fixups = table\<rparr>"

text \<open>The two rows of the examples and a fixup table with the single entry for \<open>R1\<close>.\<close>

definition row_R1 :: "string list" where
  "row_R1 = [''R1'', ''10k'', ''0805'', ''12.5'', ''8.2'', ''0'', ''top'']"

definition row_C2 :: "string list" where
  "row_C2 = [''C2'', ''100nF'', ''0603'', ''5.0'', ''5.0'', ''180'', ''top'']"

definition fixup_R1 :: "string \<Rightarrow> fixup" where
  "fixup_R1 adjust =
     \<lparr>named = [(''Reference'', Some ''R1''), (''PosRotAdjust'', Some adjust)], extra = None\<rparr>"

definition raw_header :: string where
  "raw_header = ''Ref,Val,Package,PosX,PosY,Rot,Side''"

text \<open>The export of the fixup columns with the single row of \<open>R1\<close>.\<close>

definition fixups_R1_text :: string where
  "fixups_R1_text = ''Reference,PosRotAdjust'' @ ''\<newline>'' @ ''R1,90'' @ ''\<newline>''"

section \<open>Unfolding the model on concrete inputs\<close>

lemmas example_defs =
  generate_pos_def load_pos_fixups_def finally_remove_def run_command_def open_read_def
  os_remove_def write_file_def export_pos_args_def export_fixups_args_def
  pre_fixup_pos_filename_def pos_fixups_filename_def pos_filename_def
  example_env_def cad_tool_def out_arg_def writes_def fresh_world_def example_ec_def
  plain_reader_def text_lines_def raw_header_def row_C2_def row_R1_def fixup_R1_def
  fixup_pos_line_def and_then_def list_get_def list_set_def quote_field_def
  truthy_def adjust_or_def getitem_def pos_header_def decode_def cont_def failing_env_def

lemmas step_defs =
  fab_steps_def script_step_def generate_gerbers_def generate_drill_def archive_pcb_def
  generate_bom_def

lemmas fab_defs =
  generate_fab_def fab_body_def or_default_def probe_kicad_path_def KicadProbeList_def
  basename_def path_join_def os_makedirs_def rmtree_def below_def click_echo_def

section \<open>Command runner: one call, classified by the return code\<close>

text \<open>\<open>run_command\<close> hands the argument list to \<open>subprocess.run\<close> exactly once and
  touches neither the echoed messages nor the progress bar.\<close>

lemma run_command_frame:
  "run_command E args w = (r, w') \<Longrightarrow>
   echoed w' = echoed w \<and> shown w' = shown w \<and> run_calls w' = run_calls w @ [args]"
  by (auto simp: run_command_def split: prod.splits process.splits)

text \<open>
  How a terminated process is classified: status zero is a normal return; any other status
  is a \<open>ScriptError\<close> with code 2 whose details are the decoded output, provided the output
  decodes.
\<close>

lemma run_command_classifies:
  "spawn E command_args (fs w) = (Exited returncode out, fs') \<Longrightarrow>
   fst (run_command E command_args w) =
     (if returncode = 0 then Inr ()
      else (case decode out of
              Inl e \<Rightarrow> Inl e
            | Inr decoded \<Rightarrow>
                Inl (ScriptError (''Error executing command '' @ join '' '' command_args)
                       decoded 2)))"
  by (simp add: run_command_def)

text \<open>A command that exits with status 3 after printing \<open>boom\<close>.\<close>

lemma run_command_boom:
  "fst (run_command (failing_env ''boom'') [''kicad-cli'', ''pcb'', ''export'', ''drill'']
          fresh_world)
     = Inl (ScriptError ''Error executing command kicad-cli pcb export drill'' ''boom'' 2)"
  by (simp add: run_command_def failing_env_def decode_def)

text \<open>
  Claim C3 asks that for every argument list the process is spawned once and that every
  exit with a status other than zero ends in a \<open>ScriptError\<close> with the title
  \<open>Error executing command\<close> and the joined arguments, the captured output as details, and
  code 2, while status zero is a normal return. The call is made once and the classification
  holds whenever the output decodes (the lemmas above). It fails for an output that is not
  UTF-8: \<open>created_process.stdout.decode()\<close> raises while the \<open>ScriptError\<close> is being built,
  so the caller gets \<open>UnicodeDecodeError\<close>. Below, the archive command exits with status 3
  after printing \<open>caf\<close> and the byte E9, a Latin-1 e with acute accent.
\<close>

theorem run_command_undecodable_output:
  "spawn (failing_env (''caf'' @ [CHR 0xE9])) [''zip'', ''-o'', ''fab/board-gerbers.zip'']
       (fs fresh_world)
     = (Exited 3 (''caf'' @ [CHR 0xE9]), fs fresh_world) \<and>
   run_command (failing_env (''caf'' @ [CHR 0xE9])) [''zip'', ''-o'', ''fab/board-gerbers.zip'']
       fresh_world
     = (Inl UnicodeDecodeError,
        fresh_world\<lparr>run_calls := [[''zip'', ''-o'', ''fab/board-gerbers.zip'']]\<rparr>)"
  by (simp add: run_command_def failing_env_def decode_def fresh_world_def)

section \<open>Position reconciler: the rows\<close>

lemma length_7:
  "length (xs :: string list) = 7 \<Longrightarrow> \<exists>a b c d e f g. xs = [a, b, c, d, e, f, g]"
  by (auto simp: length_Suc_conv eval_nat_numeral)

text \<open>
  Claim C1 asks that a row whose reference has no entry in the fixup table is looked up
  without an exception and written with the rotation it was exported with. The script
  subscripts the table, \<open>ec.pos_fixups[pos_line[0]]\<close>, so a reference without an entry
  raises \<open>KeyError\<close>: with the table holding \<open>R1\<close> only and the raw export holding the row
  of \<open>C2\<close>, \<open>generate_pos\<close> ends with \<open>KeyError\<close> for \<open>C2\<close>, and the final file holds the
  header line and no row.
\<close>

theorem generate_pos_missing_key:
  "(case generate_pos
           (example_env [] [] (raw_header @ ''\<newline>'' @ join '','' row_C2 @ ''\<newline>''))
           (example_ec [(Some ''R1'', fixup_R1 ''90'')]) fresh_world of
      (r, ec, w) \<Rightarrow> (r, files (fs w) ''fab/board.pos''))
   = (Inl (KeyError ''C2''), Some pos_header)"
  by (simp add: example_defs)

text \<open>The same holds for every row and every table: no entry, hence \<open>KeyError\<close>.\<close>

lemma fixup_pos_line_no_entry:
  "map_of table (Some ref) = None \<Longrightarrow> fixup_pos_line table (ref # others) = Inl (KeyError ref)"
  by (simp add: fixup_pos_line_def and_then_def list_get_def)

text \<open>
  Claim C4. For a row of the raw export (seven fields) whose reference has a record in the
  fixup table: when the record's \<open>PosRotAdjust\<close> cell is a string that is not empty, the
  rotation field of the row that is written is that string; when the cell is the empty
  string, the rotation field is the one the row was exported with. The other fields are
  the exported ones, the first three in double quotes.
\<close>

theorem fixup_pos_line_rotation:
  assumes "map_of table (Some (pos_line ! 0)) = Some fixup"
      and "map_of (named fixup) ''PosRotAdjust'' = Some (Some adjust)"
      and "length pos_line = 7"
  shows "fixup_pos_line table pos_line =
           Inr [quoted (pos_line ! 0), quoted (pos_line ! 1), quoted (pos_line ! 2),
                pos_line ! 3, pos_line ! 4,
                (if adjust \<noteq> [] then adjust else pos_line ! 5), pos_line ! 6]"
proof -
  from assms(3) obtain a b c d e f g where row: "pos_line = [a, b, c, d, e, f, g]"
    using length_7 by blast
  from assms(2) have t: "truthy fixup"
    by (auto simp: truthy_def)
  show ?thesis
    using assms(1,2) t unfolding row
    by (cases adjust)
       (simp_all add: fixup_pos_line_def and_then_def list_get_def list_set_def getitem_def
          adjust_or_def quote_field_def)
qed

text \<open>The row of \<open>R1\<close>, exported with rotation 0, under an adjustment of 90 and under an
  empty adjustment.\<close>

theorem fixup_pos_line_rotation_witness:
  "fixup_pos_line [(Some ''R1'', fixup_R1 ''90'')] row_R1 =
     Inr [quoted ''R1'', quoted ''10k'', quoted ''0805'', ''12.5'', ''8.2'', ''90'', ''top''] \<and>
   fixup_pos_line [(Some ''R1'', fixup_R1 [])] row_R1 =
     Inr [quoted ''R1'', quoted ''10k'', quoted ''0805'', ''12.5'', ''8.2'', ''0'', ''top'']"
  using fixup_pos_line_rotation
          [of "[(Some ''R1'', fixup_R1 ''90'')]" row_R1 "fixup_R1 ''90''" "''90''"]
        fixup_pos_line_rotation
          [of "[(Some ''R1'', fixup_R1 [])]" row_R1 "fixup_R1 []" "[]"]
  by (simp add: row_R1_def fixup_R1_def)

section \<open>Position reconciler: the final file\<close>







section \<open>Temporary files\<close>

text \<open>Whatever the body of the \<open>try\<close> did, the temporary file is not there afterwards.\<close>

lemma finally_remove_absent:
  "finally_remove p body = (r, ec, w) \<Longrightarrow> files (fs w) p = None"
  by (auto simp: finally_remove_def os_remove_def split: prod.splits option.splits sum.splits)

lemma load_pos_fixups_removes:
  "load_pos_fixups E ec w = (r, ec', w') \<Longrightarrow> files (fs w') (pos_fixups_filename ec) = None"
  unfolding load_pos_fixups_def by (rule finally_remove_absent)

lemma generate_pos_removes:
  "generate_pos E ec w = (r, ec', w') \<Longrightarrow> files (fs w') (pre_fixup_pos_filename ec) = None"
  unfolding generate_pos_def by (rule finally_remove_absent)

text \<open>
  The outcome of the body survives the \<open>finally\<close> clause exactly when the file is there to
  be removed; otherwise \<open>os.remove\<close> raises and its exception is the one that leaves the step.
\<close>

lemma finally_remove_propagates:
  "files (fs w) p \<noteq> None \<Longrightarrow> fst (finally_remove p (r, ec, w)) = r"
  by (auto simp: finally_remove_def os_remove_def split: prod.splits option.splits sum.splits)

lemma finally_remove_masks:
  "files (fs w) p = None \<Longrightarrow> fst (finally_remove p (r, ec, w)) = Inl (FileNotFoundError p)"
  by (auto simp: finally_remove_def os_remove_def split: prod.splits option.splits sum.splits)

text \<open>
  Claim C2 asks that after the fixup table loader and after the position reconciler the
  temporary file of the step is gone on every path, and that a failure of the step still
  reaches the caller as the error the step raised. The file is gone on every path (the three
  lemmas above), but the error is not always the step's own: when the external tool fails
  before it has written the temporary file, \<open>os.remove\<close> in the \<open>finally\<close> clause raises
  \<open>FileNotFoundError\<close>, and that exception leaves the step in place of the \<open>ScriptError\<close>
  of \<open>run_command\<close>. Below, the export exits with status 3 and writes no file.
\<close>

theorem cleanup_masks_the_error:
  "fst (run_command (example_env ''bom'' [] []) (export_fixups_args (example_ec [])) fresh_world)
     = Inl (ScriptError
         ''Error executing command kicad-cli sch export bom --fields Reference,PosRotAdjust -o fab/pos-fixups.csv board/board.kicad_sch''
         ''boom'' 2) \<and>
   fst (load_pos_fixups (example_env ''bom'' [] []) (example_ec []) fresh_world)
     = Inl (FileNotFoundError ''fab/pos-fixups.csv'') \<and>
   fst (run_command (example_env ''pos'' [] []) (export_pos_args (example_ec [])) fresh_world)
     = Inl (ScriptError
         ''Error executing command kicad-cli pcb export pos --format csv --units mm --side front -o fab/pre-fixup-pos.pos board/board.kicad_pcb''
         ''boom'' 2) \<and>
   fst (generate_pos (example_env ''pos'' [] []) (example_ec []) fresh_world)
     = Inl (FileNotFoundError ''fab/pre-fixup-pos.pos'')"
  by (simp add: example_defs)

section \<open>Pipeline: the first failure ends the run\<close>

lemma run_steps_append:
  "run_steps E (xs @ ys) ec w =
     (case run_steps E xs ec w of
        (Inl e, ec', w') \<Rightarrow> (Inl e, ec', w')
      | (Inr u, ec', w') \<Rightarrow> run_steps E ys ec' w')"
  by (induction xs arbitrary: ec w) (auto split: prod.splits sum.splits)

lemma run_steps_Cons:
  "run_steps E (s # rest) ec w =
     (case snd s E ec (w\<lparr>shown := shown w @ [fst s]\<rparr>) of
        (Inl e, ec', w') \<Rightarrow> (Inl e, ec', w')
      | (Inr u, ec', w') \<Rightarrow> run_steps E rest ec' w')"
  by (cases s) simp

text \<open>
  Claim C6. In every run of the pipeline, when the steps before position \<open>k\<close> have
  succeeded and the step at position \<open>k\<close> raises, the run ends there: the pipeline raises
  the very exception of step \<open>k\<close>, and the context and the world it leaves are those in which
  step \<open>k\<close> raised, so that no later step has run.
\<close>

theorem run_steps_stops_at_first_failure:
  assumes before: "run_steps E (take k steps) ec w = (Inr (), ec1, w1)"
      and k: "k < length steps"
      and fails: "snd (steps ! k) E ec1 (w1\<lparr>shown := shown w1 @ [fst (steps ! k)]\<rparr>)
                    = (Inl e, ec2, w2)"
  shows "run_steps E steps ec w = (Inl e, ec2, w2)"
proof -
  from k have "steps = take k steps @ steps ! k # drop (Suc k) steps"
    by (rule id_take_nth_drop)
  then have "run_steps E steps ec w =
          run_steps E (take k steps @ steps ! k # drop (Suc k) steps) ec w"
    by simp
  also have "\<dots> = run_steps E (steps ! k # drop (Suc k) steps) ec1 w1"
    using before by (simp only: run_steps_append split: prod.splits sum.splits) simp
  also have "\<dots> = (Inl e, ec2, w2)"
    using fails by (simp only: run_steps_Cons split: prod.splits sum.splits) simp
  finally show ?thesis .
qed

text \<open>
  The six steps with a drill export that fails: the second step raises, the error is that of
  the drill command, and only the gerber and the drill command have been run.
\<close>

theorem run_steps_drill_fails_witness:
  "fst (run_steps (example_env ''drill'' [] []) fab_steps (example_ec []) fresh_world) =
     Inl (ScriptError
       ''Error executing command kicad-cli pcb export drill --map-format gerberx2 -o fab/ board/board.kicad_pcb''
       ''boom'' 2) \<and>
   shown (snd (snd (run_steps (example_env ''drill'' [] []) fab_steps (example_ec []) fresh_world))) =
     [''Generate gerbers'', ''Generate drill''] \<and>
   map (\<lambda>args. args ! 3)
     (run_calls (snd (snd (run_steps (example_env ''drill'' [] []) fab_steps (example_ec [])
        fresh_world)))) =
     [''gerbers'', ''drill'']"
proof -
  let ?E = "example_env ''drill'' [] []"
  let ?ec = "example_ec []"
  let ?r1 = "run_steps ?E (take (Suc 0) fab_steps) ?ec fresh_world"
  let ?ec1 = "fst (snd ?r1)"
  let ?w1 = "snd (snd ?r1)"
  let ?r2 = "snd (fab_steps ! Suc 0) ?E ?ec1 (?w1\<lparr>shown := shown ?w1 @ [fst (fab_steps ! Suc 0)]\<rparr>)"
  let ?e = "ScriptError
       ''Error executing command kicad-cli pcb export drill --map-format gerberx2 -o fab/ board/board.kicad_pcb''
       ''boom'' 2"
  have "fst ?r1 = Inr ()"
    by (simp add: step_defs example_defs)
  then have before: "?r1 = (Inr (), ?ec1, ?w1)"
    by (metis prod.collapse)
  have k: "Suc 0 < length fab_steps"
    by (simp add: fab_steps_def)
  have "fst ?r2 = Inl ?e"
    by (simp add: step_defs example_defs)
  then have fails: "?r2 = (Inl ?e, fst (snd ?r2), snd (snd ?r2))"
    by (metis prod.collapse)
  from run_steps_stops_at_first_failure [OF before k fails]
  show ?thesis
    by (simp add: step_defs example_defs)
qed

section \<open>What the steps leave unchanged, and which errors they raise\<close>

lemma run_command_error:
  "run_command E args w = (Inl e, w') \<Longrightarrow> is_ScriptError e \<Longrightarrow> error_code e = 2"
  by (auto simp: run_command_def decode_def split: prod.splits process.splits if_splits sum.splits)

lemma finally_remove_frame:
  "finally_remove p (r, ec, w) = (r', ec', w') \<Longrightarrow>
   ec' = ec \<and> echoed w' = echoed w \<and> shown w' = shown w \<and> run_calls w' = run_calls w"
  by (auto simp: finally_remove_def os_remove_def split: option.splits)

lemma finally_remove_error:
  "finally_remove p (r, ec, w) = (Inl e, ec', w') \<Longrightarrow> r = Inl e \<or> e = FileNotFoundError p"
  by (auto simp: finally_remove_def os_remove_def split: option.splits)

lemma fixup_pos_line_error:
  "fixup_pos_line table row = Inl e \<Longrightarrow> \<not> is_ScriptError e"
  by (auto simp: fixup_pos_line_def and_then_def list_get_def list_set_def getitem_def
        adjust_or_def quote_field_def
      split: option.splits if_splits list.splits sum.splits)

lemma write_pos_lines_error:
  "write_pos_lines table rows acc = (Inl e, written) \<Longrightarrow> \<not> is_ScriptError e"
  by (induction rows arbitrary: acc) (auto split: sum.splits dest: fixup_pos_line_error)

lemma store_fixups_error:
  "store_fixups rows table = (Inl e, table') \<Longrightarrow> \<not> is_ScriptError e"
  by (induction rows arbitrary: table) (auto simp: getitem_def split: sum.splits option.splits)

lemma simple_steps_frame:
  assumes "step = generate_gerbers \<or> step = generate_drill \<or> step = archive_pcb \<or> step = generate_bom"
      and "step E ec w = (r, ec', w')"
  shows "ec' = ec \<and> echoed w' = echoed w \<and> shown w' = shown w \<and>
         (\<forall>e. r = Inl e \<and> is_ScriptError e \<longrightarrow> error_code e = 2)"
  using assms
  by (auto simp: generate_gerbers_def generate_drill_def archive_pcb_def generate_bom_def
      split: prod.splits dest: run_command_frame run_command_error)


lemma load_pos_fixups_body:
  "\<exists>r0 table.
     load_pos_fixups E ec w =
       finally_remove (pos_fixups_filename ec)
         (r0, ec\<lparr>pos_fixups := table\<rparr>, snd (run_command E (export_fixups_args ec) w)) \<and>
     (\<forall>e. r0 = Inl e \<longrightarrow> is_ScriptError e \<longrightarrow> error_code e = 2)"
proof -
  obtain r1 w1 where rc: "run_command E (export_fixups_args ec) w = (r1, w1)"
    by (cases "run_command E (export_fixups_args ec) w")
  have "\<exists>r0 table.
     load_pos_fixups E ec w =
       finally_remove (pos_fixups_filename ec) (r0, ec\<lparr>pos_fixups := table\<rparr>, w1) \<and>
     (\<forall>e. r0 = Inl e \<longrightarrow> is_ScriptError e \<longrightarrow> error_code e = 2)"
  proof (cases r1)
    case (Inl e)
    with rc have "load_pos_fixups E ec w =
        finally_remove (pos_fixups_filename ec) (Inl e, ec\<lparr>pos_fixups := pos_fixups ec\<rparr>, w1)"
      by (simp add: load_pos_fixups_def)
    moreover from rc Inl have "\<forall>e'. Inl e = (Inl e' :: exn + unit) \<longrightarrow> is_ScriptError e' \<longrightarrow> error_code e' = 2"
      by (auto dest: run_command_error)
    ultimately show ?thesis by blast
  next
    case (Inr u)
    show ?thesis
    proof (cases "open_read (pos_fixups_filename ec) w1")
      case (Inl e)
      then have "\<forall>e'. Inl e = (Inl e' :: exn + unit) \<longrightarrow> is_ScriptError e' \<longrightarrow> error_code e' = 2"
        by (auto simp: open_read_def split: option.splits)
      moreover from rc Inr Inl have "load_pos_fixups E ec w =
          finally_remove (pos_fixups_filename ec) (Inl e, ec\<lparr>pos_fixups := pos_fixups ec\<rparr>, w1)"
        by (simp add: load_pos_fixups_def)
      ultimately show ?thesis by blast
    next
      case (Inr content)
      obtain r2 table where st:
        "store_fixups (DictReader (csv_reader E content)) (pos_fixups ec) = (r2, table)"
        by (cases "store_fixups (DictReader (csv_reader E content)) (pos_fixups ec)")
      from rc \<open>r1 = Inr u\<close> Inr st have "load_pos_fixups E ec w =
          finally_remove (pos_fixups_filename ec) (r2, ec\<lparr>pos_fixups := table\<rparr>, w1)"
        by (simp add: load_pos_fixups_def)
      moreover from st have "\<forall>e. r2 = Inl e \<longrightarrow> is_ScriptError e \<longrightarrow> error_code e = 2"
        by (auto dest: store_fixups_error)
      ultimately show ?thesis by blast
    qed
  qed
  then show ?thesis using rc by simp
qed

lemma generate_pos_body:
  "\<exists>r0 w0.
     generate_pos E ec w = finally_remove (pre_fixup_pos_filename ec) (r0, ec, w0) \<and>
     echoed w0 = echoed w \<and> shown w0 = shown w \<and>
     run_calls w0 = run_calls w @ [export_pos_args ec] \<and>
     (\<forall>e. r0 = Inl e \<longrightarrow> is_ScriptError e \<longrightarrow> error_code e = 2)"
proof -
  obtain r1 w1 where rc: "run_command E (export_pos_args ec) w = (r1, w1)"
    by (cases "run_command E (export_pos_args ec) w")
  from run_command_frame [OF rc] have fr: "echoed w1 = echoed w \<and> shown w1 = shown w"
    and calls: "run_calls w1 = run_calls w @ [export_pos_args ec]"
    by simp_all
  show ?thesis
  proof (cases r1)
    case (Inl e)
    with rc have "generate_pos E ec w = finally_remove (pre_fixup_pos_filename ec) (Inl e, ec, w1)"
      by (simp add: generate_pos_def)
    moreover from rc Inl have "\<forall>e'. Inl e = (Inl e' :: exn + unit) \<longrightarrow> is_ScriptError e' \<longrightarrow> error_code e' = 2"
      by (auto dest: run_command_error)
    ultimately show ?thesis using fr calls by blast
  next
    case (Inr u)
    show ?thesis
    proof (cases "open_read (pre_fixup_pos_filename ec) w1")
      case (Inl e)
      then have "\<forall>e'. Inl e = (Inl e' :: exn + unit) \<longrightarrow> is_ScriptError e' \<longrightarrow> error_code e' = 2"
        by (auto simp: open_read_def split: option.splits)
      moreover from rc Inr Inl have "generate_pos E ec w =
          finally_remove (pre_fixup_pos_filename ec) (Inl e, ec, w1)"
        by (simp add: generate_pos_def)
      ultimately show ?thesis using fr calls by blast
    next
      case (Inr content)
      note content = this
      show ?thesis
      proof (cases "csv_reader E content")
        case Nil
        with rc \<open>r1 = Inr u\<close> content have "generate_pos E ec w =
            finally_remove (pre_fixup_pos_filename ec) (Inl StopIteration, ec, w1)"
          by (simp add: generate_pos_def)
        moreover have "\<forall>e'. Inl StopIteration = (Inl e' :: exn + unit) \<longrightarrow> is_ScriptError e' \<longrightarrow> error_code e' = 2"
          by simp
        ultimately show ?thesis using fr calls by blast
      next
        case (Cons header rows)
        obtain r2 written where wr:
          "write_pos_lines (pos_fixups ec) rows pos_header = (r2, written)"
          by (cases "write_pos_lines (pos_fixups ec) rows pos_header")
        from rc \<open>r1 = Inr u\<close> content Cons wr have "generate_pos E ec w =
            finally_remove (pre_fixup_pos_filename ec)
              (r2, ec, write_file (pos_filename ec) written w1)"
          by (simp add: generate_pos_def)
        moreover from wr have "\<forall>e. r2 = Inl e \<longrightarrow> is_ScriptError e \<longrightarrow> error_code e = 2"
          by (auto dest: write_pos_lines_error)
        moreover have "echoed (write_file (pos_filename ec) written w1) = echoed w \<and>
            shown (write_file (pos_filename ec) written w1) = shown w \<and>
            run_calls (write_file (pos_filename ec) written w1) = run_calls w @ [export_pos_args ec]"
          using fr calls by (simp add: write_file_def)
        ultimately show ?thesis by blast
      qed
    qed
  qed
qed

lemma load_pos_fixups_frame:
  assumes "load_pos_fixups E ec w = (r, ec', w')"
  shows "kicad_path ec' = kicad_path ec \<and> output ec' = output ec \<and> pcb ec' = pcb ec \<and>
         schema ec' = schema ec \<and> project_base ec' = project_base ec \<and>
         echoed w' = echoed w \<and> shown w' = shown w \<and>
         (\<forall>e. r = Inl e \<longrightarrow> is_ScriptError e \<longrightarrow> error_code e = 2)"
proof -
  obtain r1 w1 where rc: "run_command E (export_fixups_args ec) w = (r1, w1)"
    by (cases "run_command E (export_fixups_args ec) w")
  from load_pos_fixups_body [of E ec w] rc obtain r0 table where
    body: "load_pos_fixups E ec w =
             finally_remove (pos_fixups_filename ec) (r0, ec\<lparr>pos_fixups := table\<rparr>, w1)"
    and code: "\<forall>e. r0 = Inl e \<longrightarrow> is_ScriptError e \<longrightarrow> error_code e = 2"
    by auto
  from assms body
  have fin: "finally_remove (pos_fixups_filename ec) (r0, ec\<lparr>pos_fixups := table\<rparr>, w1) = (r, ec', w')"
    by simp
  from finally_remove_frame [OF fin] run_command_frame [OF rc]
  have "kicad_path ec' = kicad_path ec \<and> output ec' = output ec \<and> pcb ec' = pcb ec \<and>
         schema ec' = schema ec \<and> project_base ec' = project_base ec \<and>
        echoed w' = echoed w \<and> shown w' = shown w"
    by simp
  moreover have "\<forall>e. r = Inl e \<longrightarrow> is_ScriptError e \<longrightarrow> error_code e = 2"
  proof (intro allI impI)
    fix e assume "r = Inl e" and se: "is_ScriptError e"
    with fin have "finally_remove (pos_fixups_filename ec) (r0, ec\<lparr>pos_fixups := table\<rparr>, w1)
                     = (Inl e, ec', w')"
      by simp
    from finally_remove_error [OF this] se have "r0 = Inl e"
      by auto
    with code se show "error_code e = 2"
      by simp
  qed
  ultimately show ?thesis by simp
qed

lemma generate_pos_frame:
  assumes "generate_pos E ec w = (r, ec', w')"
  shows "ec' = ec \<and> echoed w' = echoed w \<and> shown w' = shown w \<and>
         run_calls w' = run_calls w @ [export_pos_args ec] \<and>
         (\<forall>e. r = Inl e \<longrightarrow> is_ScriptError e \<longrightarrow> error_code e = 2)"
proof -
  from generate_pos_body [of E ec w] obtain r0 w0 where
    body: "generate_pos E ec w = finally_remove (pre_fixup_pos_filename ec) (r0, ec, w0)"
    and fr: "echoed w0 = echoed w" "shown w0 = shown w"
            "run_calls w0 = run_calls w @ [export_pos_args ec]"
    and code: "\<forall>e. r0 = Inl e \<longrightarrow> is_ScriptError e \<longrightarrow> error_code e = 2"
    by auto
  from assms body
  have fin: "finally_remove (pre_fixup_pos_filename ec) (r0, ec, w0) = (r, ec', w')"
    by simp
  from finally_remove_frame [OF fin] fr
  have "ec' = ec \<and> echoed w' = echoed w \<and> shown w' = shown w \<and>
        run_calls w' = run_calls w @ [export_pos_args ec]"
    by simp
  moreover have "\<forall>e. r = Inl e \<longrightarrow> is_ScriptError e \<longrightarrow> error_code e = 2"
  proof (intro allI impI)
    fix e assume "r = Inl e" and se: "is_ScriptError e"
    with fin have "finally_remove (pre_fixup_pos_filename ec) (r0, ec, w0) = (Inl e, ec', w')"
      by simp
    from finally_remove_error [OF this] se have "r0 = Inl e"
      by auto
    with code se show "error_code e = 2"
      by simp
  qed
  ultimately show ?thesis by simp
qed

lemma fab_steps_cases:
  "(t, step) \<in> set fab_steps \<Longrightarrow>
   (step = generate_gerbers \<or> step = generate_drill \<or> step = archive_pcb \<or> step = generate_bom) \<and>
     t \<noteq> ''Load pick-and-place fixup mappings'' \<or>
   step = load_pos_fixups \<and> t = ''Load pick-and-place fixup mappings'' \<or>
   step = generate_pos \<and> t \<noteq> ''Load pick-and-place fixup mappings''"
  by (auto simp: fab_steps_def script_step_def)

lemma fab_step_frame:
  assumes "(t, step) \<in> set fab_steps" and "step E ec w = (r, ec', w')"
  shows "kicad_path ec' = kicad_path ec \<and> output ec' = output ec \<and> pcb ec' = pcb ec \<and>
         schema ec' = schema ec \<and> project_base ec' = project_base ec \<and>
         (t \<noteq> ''Load pick-and-place fixup mappings'' \<longrightarrow> ec' = ec) \<and>
         echoed w' = echoed w \<and> shown w' = shown w \<and>
         (\<forall>e. r = Inl e \<longrightarrow> is_ScriptError e \<longrightarrow> error_code e = 2)"
proof -
  from fab_steps_cases [OF assms(1)]
  consider
      (simple) "step = generate_gerbers \<or> step = generate_drill \<or> step = archive_pcb \<or>
                step = generate_bom"
    | (load) "step = load_pos_fixups" "t = ''Load pick-and-place fixup mappings''"
    | (pos) "step = generate_pos" "t \<noteq> ''Load pick-and-place fixup mappings''"
    by blast
  then show ?thesis
  proof cases
    case simple
    from simple_steps_frame [OF simple assms(2)] show ?thesis
      by simp
  next
    case load
    with assms(2) load_pos_fixups_frame [of E ec w r ec' w'] show ?thesis
      by simp
  next
    case pos
    with assms(2) generate_pos_frame [of E ec w r ec' w'] show ?thesis
      by simp
  qed
qed

lemma run_steps_frame:
  assumes "set steps \<subseteq> set fab_steps" and "run_steps E steps ec w = (r, ec', w')"
  shows "kicad_path ec' = kicad_path ec \<and> output ec' = output ec \<and> pcb ec' = pcb ec \<and>
         schema ec' = schema ec \<and> project_base ec' = project_base ec \<and>
         (''Load pick-and-place fixup mappings'' \<notin> fst ` set steps \<longrightarrow> ec' = ec) \<and>
         echoed w' = echoed w \<and>
         (r = Inr () \<longrightarrow> shown w' = shown w @ map fst steps) \<and>
         (\<forall>e. r = Inl e \<longrightarrow> is_ScriptError e \<longrightarrow> error_code e = 2)"
  using assms
proof (induction steps arbitrary: ec w)
  case Nil
  then have "r = Inr ()" "ec' = ec" "w' = w"
    by simp_all
  then show ?case
    by simp
next
  case (Cons s steps)
  define L where "L = ''Load pick-and-place fixup mappings''"
  obtain t step where s: "s = (t, step)"
    by (cases s)
  from Cons.prems(1) s have mem: "(t, step) \<in> set fab_steps" and sub: "set steps \<subseteq> set fab_steps"
    by simp_all
  obtain r1 ec1 w1 where st: "step E ec (w\<lparr>shown := shown w @ [t]\<rparr>) = (r1, ec1, w1)"
    by (metis prod.collapse)
  from fab_step_frame [OF mem st]
  have f1: "kicad_path ec1 = kicad_path ec \<and> output ec1 = output ec \<and> pcb ec1 = pcb ec \<and>
         schema ec1 = schema ec \<and> project_base ec1 = project_base ec"
    and f2: "t \<noteq> L \<longrightarrow> ec1 = ec"
    and f3: "echoed w1 = echoed w" "shown w1 = shown w @ [t]"
    and f4: "\<forall>e. r1 = Inl e \<longrightarrow> is_ScriptError e \<longrightarrow> error_code e = 2"
    unfolding L_def by simp_all
  have goal: "kicad_path ec' = kicad_path ec \<and> output ec' = output ec \<and> pcb ec' = pcb ec \<and>
         schema ec' = schema ec \<and> project_base ec' = project_base ec \<and>
         (L \<notin> fst ` set (s # steps) \<longrightarrow> ec' = ec) \<and>
         echoed w' = echoed w \<and>
         (r = Inr () \<longrightarrow> shown w' = shown w @ map fst (s # steps)) \<and>
         (\<forall>e. r = Inl e \<longrightarrow> is_ScriptError e \<longrightarrow> error_code e = 2)"
  proof (cases r1)
    case (Inl e)
    with Cons.prems(2) s st have "r = Inl e" "ec' = ec1" "w' = w1"
      by simp_all
    with f1 f2 f3 f4 Inl s show ?thesis
      by auto
  next
    case (Inr u)
    with Cons.prems(2) s st have rest: "run_steps E steps ec1 w1 = (r, ec', w')"
      by simp
    from Cons.IH [OF sub rest]
    have i1: "kicad_path ec' = kicad_path ec1 \<and> output ec' = output ec1 \<and> pcb ec' = pcb ec1 \<and>
         schema ec' = schema ec1 \<and> project_base ec' = project_base ec1"
      and i2: "L \<notin> fst ` set steps \<longrightarrow> ec' = ec1"
      and i3: "echoed w' = echoed w1"
      and i4: "r = Inr () \<longrightarrow> shown w' = shown w1 @ map fst steps"
      and i5: "\<forall>e. r = Inl e \<longrightarrow> is_ScriptError e \<longrightarrow> error_code e = 2"
      unfolding L_def by simp_all
    from f2 i2 s have "L \<notin> fst ` set (s # steps) \<longrightarrow> ec' = ec"
      by auto
    with f1 f3 i1 i3 i4 i5 s show ?thesis
      by simp
  qed
  then show ?case
    unfolding L_def .
qed

section \<open>Execution context: what a step may change\<close>

text \<open>
  Claim C9. Whichever of the six steps runs, and however it ends, the configuration fields
  of the execution context (tool path, output directory, board file, schema file, project
  base name) are the same after the step as before it; the fixups map is the only part of
  the context that a step changes, and the loader is the only step that changes it.
\<close>

theorem steps_keep_configuration:
  assumes "(t, step) \<in> set fab_steps" and "step E ec w = (r, ec', w')"
  shows "kicad_path ec' = kicad_path ec \<and> output ec' = output ec \<and> pcb ec' = pcb ec \<and>
         schema ec' = schema ec \<and> project_base ec' = project_base ec \<and>
         (t \<noteq> ''Load pick-and-place fixup mappings'' \<longrightarrow> pos_fixups ec' = pos_fixups ec)"
  using fab_step_frame [OF assms] by simp

text \<open>The loader on an export with the row of \<open>R1\<close>: the map gains the entry, the rest of the
  context stays.\<close>

theorem steps_keep_configuration_witness:
  "(''Load pick-and-place fixup mappings'', load_pos_fixups) \<in> set fab_steps \<and>
   fst (snd (load_pos_fixups (example_env [] fixups_R1_text []) (example_ec []) fresh_world)) =
     example_ec [(Some ''R1'', fixup_R1 ''90'')]"
proof -
  let ?res = "load_pos_fixups (example_env [] fixups_R1_text []) (example_ec []) fresh_world"
  have mem: "(''Load pick-and-place fixup mappings'', load_pos_fixups) \<in> set fab_steps"
    by (simp add: fab_steps_def script_step_def)
  have run: "?res = (fst ?res, fst (snd ?res), snd (snd ?res))"
    by simp
  have table: "pos_fixups (fst (snd ?res)) = [(Some ''R1'', fixup_R1 ''90'')]"
    by (simp add: example_defs fixups_R1_text_def dict_row_def)
  from steps_keep_configuration [OF mem run] table mem
  show ?thesis
    by (simp add: example_ec_def ScriptExecutionContext.equality)
qed

section \<open>Pipeline: the order of the steps\<close>

lemma fab_steps_split:
  "fab_steps = take 4 fab_steps @
     [(''Load pick-and-place fixup mappings'', load_pos_fixups),
      (''Generate and fixup pick-and-place'', generate_pos)]"
  by (simp add: fab_steps_def script_step_def)

lemma first_four_titles:
  "''Load pick-and-place fixup mappings'' \<notin> fst ` set (take 4 fab_steps)"
  by (simp add: fab_steps_def script_step_def)

text \<open>
  Claim C8. The pipeline consists of exactly six steps in the fixed order: generate gerbers,
  generate drill, archive the fabrication outputs, generate the BOM, load the fixup table,
  generate and reconcile the placement file. A run in which every step succeeds goes through
  the six of them in this order, and the placement step starts from the very context that the
  loader has returned, so the table is filled before the reconciler looks into it.
\<close>

theorem fab_steps_order:
  "map fst fab_steps =
     [''Generate gerbers'', ''Generate drill'', ''Archive PCB fabrication outputs'',
      ''Generate BOM'', ''Load pick-and-place fixup mappings'',
      ''Generate and fixup pick-and-place''] \<and>
   map snd fab_steps =
     [generate_gerbers, generate_drill, archive_pcb, generate_bom, load_pos_fixups,
      generate_pos] \<and>
   (\<forall>ec w ec' w'. run_steps E fab_steps ec w = (Inr (), ec', w') \<longrightarrow>
      shown w' = shown w @ map fst fab_steps \<and>
      (\<exists>w4 ec5 w5.
         run_steps E (take 4 fab_steps) ec w = (Inr (), ec, w4) \<and>
         load_pos_fixups E ec (w4\<lparr>shown := shown w4 @ [''Load pick-and-place fixup mappings'']\<rparr>)
           = (Inr (), ec5, w5) \<and>
         generate_pos E ec5 (w5\<lparr>shown := shown w5 @ [''Generate and fixup pick-and-place'']\<rparr>)
           = (Inr (), ec', w')))"
proof (intro conjI allI impI)
  show "map fst fab_steps =
     [''Generate gerbers'', ''Generate drill'', ''Archive PCB fabrication outputs'',
      ''Generate BOM'', ''Load pick-and-place fixup mappings'',
      ''Generate and fixup pick-and-place'']"
    by (simp add: fab_steps_def script_step_def)
  show "map snd fab_steps =
     [generate_gerbers, generate_drill, archive_pcb, generate_bom, load_pos_fixups,
      generate_pos]"
    by (simp add: fab_steps_def script_step_def)
next
  fix ec w ec' w'
  assume run: "run_steps E fab_steps ec w = (Inr (), ec', w')"
  from run_steps_frame [OF subset_refl run]
  show "shown w' = shown w @ map fst fab_steps"
    by simp
  obtain r4 ec4 w4 where four: "run_steps E (take 4 fab_steps) ec w = (r4, ec4, w4)"
    by (metis prod.collapse)
  have sub: "set (take 4 fab_steps) \<subseteq> set fab_steps"
    by (rule set_take_subset)
  from run_steps_frame [OF sub four] first_four_titles have ec4: "ec4 = ec"
    by simp
  let ?rest = "[(''Load pick-and-place fixup mappings'', load_pos_fixups),
      (''Generate and fixup pick-and-place'', generate_pos)]"
  from run fab_steps_split have "run_steps E (take 4 fab_steps @ ?rest) ec w = (Inr (), ec', w')"
    by simp
  with four ec4 have r4: "r4 = Inr ()" and rest: "run_steps E ?rest ec w4 = (Inr (), ec', w')"
    by (auto simp: run_steps_append split: sum.splits)
  obtain r5 ec5 w5 where load:
    "load_pos_fixups E ec (w4\<lparr>shown := shown w4 @ [''Load pick-and-place fixup mappings'']\<rparr>)
       = (r5, ec5, w5)"
    by (metis prod.collapse)
  with rest have r5: "r5 = Inr ()"
    and pos: "generate_pos E ec5 (w5\<lparr>shown := shown w5 @ [''Generate and fixup pick-and-place'']\<rparr>)
                = (Inr (), ec', w')"
    by (auto split: sum.splits prod.splits)
  from four r4 ec4 load r5 pos
  show "\<exists>w4 ec5 w5.
         run_steps E (take 4 fab_steps) ec w = (Inr (), ec, w4) \<and>
         load_pos_fixups E ec (w4\<lparr>shown := shown w4 @ [''Load pick-and-place fixup mappings'']\<rparr>)
           = (Inr (), ec5, w5) \<and>
         generate_pos E ec5 (w5\<lparr>shown := shown w5 @ [''Generate and fixup pick-and-place'']\<rparr>)
           = (Inr (), ec', w')"
    by blast
qed

text \<open>A run in which every step succeeds.\<close>

theorem fab_steps_order_witness:
  "fst (run_steps (example_env [] fixups_R1_text (raw_header @ ''\<newline>'' @ join '','' row_R1 @ ''\<newline>''))
          fab_steps (example_ec []) fresh_world) = Inr () \<and>
   shown (snd (snd (run_steps
       (example_env [] fixups_R1_text (raw_header @ ''\<newline>'' @ join '','' row_R1 @ ''\<newline>''))
       fab_steps (example_ec []) fresh_world))) =
     [''Generate gerbers'', ''Generate drill'', ''Archive PCB fabrication outputs'',
      ''Generate BOM'', ''Load pick-and-place fixup mappings'',
      ''Generate and fixup pick-and-place'']"
proof -
  let ?E = "example_env [] fixups_R1_text (raw_header @ ''\<newline>'' @ join '','' row_R1 @ ''\<newline>'')"
  let ?res = "run_steps ?E fab_steps (example_ec []) fresh_world"
  have ok: "fst ?res = Inr ()"
    by (simp add: step_defs example_defs fixups_R1_text_def dict_row_def Let_def)
  then have run: "?res = (Inr (), fst (snd ?res), snd (snd ?res))"
    by (metis prod.collapse)
  from fab_steps_order [of ?E] run
  have "shown (snd (snd ?res)) = shown fresh_world @ map fst fab_steps"
    by blast
  with ok show ?thesis
    by (simp add: fresh_world_def fab_steps_def script_step_def)
qed

section \<open>Entry point: what the caller gets\<close>

lemma rmtree_echoed: "echoed (rmtree d w) = echoed w"
  by (simp add: rmtree_def)

lemma os_makedirs_echoed: "os_makedirs d w = (r, w') \<Longrightarrow> echoed w' = echoed w"
  by (auto simp: os_makedirs_def split: if_splits)

lemma os_makedirs_error: "os_makedirs d w = (Inl e, w') \<Longrightarrow> \<not> is_ScriptError e"
  by (auto simp: os_makedirs_def split: if_splits)

lemma fab_body_conflict:
  "dirs (fs w) output' \<and> \<not> force \<Longrightarrow>
   fab_body E project schema' pcb' output' force kicad_path' w =
     (Inl (ScriptError (quoted output' @ '' already exists.'')
             ''Use --fore to remove and re-create, or --output to specify a different path'' 1), w)"
  by (simp add: fab_body_def)

lemma fab_body_cases:
  assumes run: "fab_body E project schema' pcb' output' force kicad_path' w = (r, w')"
      and free: "\<not> (dirs (fs w) output' \<and> \<not> force)"
  shows "(\<exists>e. r = Inl e \<and> \<not> is_ScriptError e) \<or>
         (\<exists>t d banner. r = Inl (ScriptError t d 2) \<and>
            echoed w' = echoed w @ [Plain banner]) \<or>
         (r = Inr () \<and> (\<exists>banner. echoed w' = echoed w @ [Plain banner, Plain ''Done.'']))"
proof -
  let ?w1 = "if dirs (fs w) output' then rmtree output' w else w"
  have e1: "echoed ?w1 = echoed w"
    by (simp add: rmtree_echoed)
  obtain r2 w2 where mk: "os_makedirs output' ?w1 = (r2, w2)"
    by (cases "os_makedirs output' ?w1")
  from os_makedirs_echoed [OF mk] e1 have e2: "echoed w2 = echoed w"
    by simp
  show ?thesis
  proof (cases r2)
    case (Inl e)
    with mk run free have "r = Inl e"
      by (simp add: fab_body_def Let_def)
    moreover from mk Inl have "\<not> is_ScriptError e"
      by (auto dest: os_makedirs_error)
    ultimately show ?thesis by blast
  next
    case (Inr u)
    let ?banner = "''Using '' @ kicad_path' @ '' to generate fabraction outputs for PCB '' @ pcb' @
                   '' and schema '' @ schema'"
    let ?w3 = "click_echo (Plain ?banner) w2"
    let ?ec = "\<lparr>kicad_path = kicad_path', output = output', pcb = pcb', schema = schema',
                project_base = basename project, pos_fixups = []\<rparr>"
    obtain r4 ec4 w4 where steps: "run_steps E fab_steps ?ec ?w3 = (r4, ec4, w4)"
      by (metis prod.collapse)
    from run_steps_frame [OF subset_refl steps]
    have e4: "echoed w4 = echoed ?w3"
      and code: "\<forall>e. r4 = Inl e \<longrightarrow> is_ScriptError e \<longrightarrow> error_code e = 2"
      by simp_all
    from e4 e2 have e4': "echoed w4 = echoed w @ [Plain ?banner]"
      by (simp add: click_echo_def)
    show ?thesis
    proof (cases r4)
      case (Inl e)
      with mk \<open>r2 = Inr u\<close> steps run free have r: "r = Inl e" and w: "w' = w4"
        by (simp_all add: fab_body_def Let_def)
      show ?thesis
      proof (cases "is_ScriptError e")
        case True
        with code Inl have "error_code e = 2" by simp
        with True obtain t d where "e = ScriptError t d 2"
          by (cases e) simp_all
        with r w e4' show ?thesis by blast
      next
        case False
        with r show ?thesis by blast
      qed
    next
      case (Inr u')
      with mk \<open>r2 = Inr u\<close> steps run free
      have "r = Inr ()" and "w' = click_echo (Plain ''Done.'') w4"
        by (simp_all add: fab_body_def Let_def)
      with e4' show ?thesis
        by (simp add: click_echo_def)
    qed
  qed
qed

text \<open>
  What the handler echoes and what \<open>generate_fab\<close> returns. When the \<open>try\<close> block raises a
  \<open>ScriptError\<close>, the title of that error is echoed in red, its details are echoed after
  it, and the error's code is returned; the code is 1 when the output directory exists and
  the force flag is not set, and 2 in every other case, where the error comes from a command
  that \<open>run_command\<close> found to have failed. When the block completes, the message \<open>Done.\<close>
  has been echoed last and \<open>generate_fab\<close> returns \<open>None\<close>. An existing output directory
  without the force flag always ends in the error with code 1.
\<close>

theorem generate_fab_outcome:
  assumes body:
    "fab_body E project
       (path_join project (or_default schema' (basename project @ ''.kicad_sch'')))
       (path_join project (or_default pcb' (basename project @ ''.kicad_pcb'')))
       output' force (or_default kicad_path' (probe_kicad_path w)) w = (b, w1)"
  shows
    "(\<forall>t d c. b = Inl (ScriptError t d c) \<longrightarrow>
        generate_fab E project schema' pcb' output' force kicad_path' w =
          (Inr (Some c), w1\<lparr>echoed := echoed w1 @ [Red t, Plain d]\<rparr>) \<and>
        (if dirs (fs w) output' \<and> \<not> force then c = 1 else c = 2)) \<and>
     (b = Inr () \<longrightarrow>
        generate_fab E project schema' pcb' output' force kicad_path' w = (Inr None, w1) \<and>
        (\<exists>banner. echoed w1 = echoed w @ [Plain banner, Plain ''Done.''])) \<and>
     (dirs (fs w) output' \<and> \<not> force \<longrightarrow>
        b = Inl (ScriptError (quoted output' @ '' already exists.'')
                   ''Use --fore to remove and re-create, or --output to specify a different path''
                   1))"
proof (intro conjI allI impI)
  fix t d c assume b: "b = Inl (ScriptError t d c)"
  with body show "generate_fab E project schema' pcb' output' force kicad_path' w =
          (Inr (Some c), w1\<lparr>echoed := echoed w1 @ [Red t, Plain d]\<rparr>)"
    by (simp add: generate_fab_def Let_def click_echo_def)
  show "if dirs (fs w) output' \<and> \<not> force then c = 1 else c = 2"
  proof (cases "dirs (fs w) output' \<and> \<not> force")
    case True
    from fab_body_conflict [OF True, of E project
        "path_join project (or_default schema' (basename project @ ''.kicad_sch''))"
        "path_join project (or_default pcb' (basename project @ ''.kicad_pcb''))"
        "or_default kicad_path' (probe_kicad_path w)"] body b
    have "c = 1" by simp
    with True show ?thesis by simp
  next
    case False
    from fab_body_cases [OF body False] b False show ?thesis
      by auto
  qed
next
  assume b: "b = Inr ()"
  with body show "generate_fab E project schema' pcb' output' force kicad_path' w = (Inr None, w1)"
    by (simp add: generate_fab_def Let_def)
  have free: "\<not> (dirs (fs w) output' \<and> \<not> force)"
  proof
    assume "dirs (fs w) output' \<and> \<not> force"
    from fab_body_conflict [OF this] body b show False
      by simp
  qed
  from fab_body_cases [OF body free] b
  show "\<exists>banner. echoed w1 = echoed w @ [Plain banner, Plain ''Done.'']"
    by auto
next
  assume "dirs (fs w) output' \<and> \<not> force"
  from fab_body_conflict [OF this] body
  show "b = Inl (ScriptError (quoted output' @ '' already exists.'')
                   ''Use --fore to remove and re-create, or --output to specify a different path''
                   1)"
    by simp
qed

text \<open>An output directory that exists already, without the force flag.\<close>

theorem generate_fab_outcome_witness:
  "generate_fab (example_env [] [] []) ''board'' None None ''fab'' False None
     (fresh_world\<lparr>fs := \<lparr>files = Map.empty, dirs = (\<lambda>p. p = ''fab'')\<rparr>\<rparr>) =
     (Inr (Some 1),
      fresh_world\<lparr>fs := \<lparr>files = Map.empty, dirs = (\<lambda>p. p = ''fab'')\<rparr>,
        echoed := [Red (quoted ''fab'' @ '' already exists.''),
                   Plain ''Use --fore to remove and re-create, or --output to specify a different path'']\<rparr>)"
proof -
  let ?w = "fresh_world\<lparr>fs := \<lparr>files = Map.empty, dirs = (\<lambda>p. p = ''fab'')\<rparr>\<rparr>"
  have body: "fab_body (example_env [] [] []) ''board''
       (path_join ''board'' (or_default None (basename ''board'' @ ''.kicad_sch'')))
       (path_join ''board'' (or_default None (basename ''board'' @ ''.kicad_pcb'')))
       ''fab'' False (or_default None (probe_kicad_path ?w)) ?w =
     (Inl (ScriptError (quoted ''fab'' @ '' already exists.'')
             ''Use --fore to remove and re-create, or --output to specify a different path'' 1), ?w)"
    by (simp add: fab_body_def fresh_world_def)
  from generate_fab_outcome [OF body]
  show ?thesis
    by (simp add: fresh_world_def)
qed

section \<open>Entry point: the exit status of the process\<close>

text \<open>The process ends with status 0 whenever \<open>generate_fab\<close> returns, whatever it returns,
  and with status 1 when an exception leaves it.\<close>

lemma main_status:
  "fst (main E project schema' pcb' output' force kicad_path' w) =
     (case fst (generate_fab E project schema' pcb' output' force kicad_path' w) of
        Inr returned \<Rightarrow> 0
      | Inl e \<Rightarrow> 1)"
  by (simp add: main_def split: prod.splits sum.splits)

text \<open>
  Claim C7 asks that on an error the title and the details of the error are printed and the
  process exits with the error's code: 0 on success, 1 when the output directory exists and
  the force flag is not set, 2 for any failure of an external command. The title and the
  details are printed and \<open>generate_fab\<close> returns the code, but the returned value is not
  made the exit status. With the output directory \<open>fab\<close> in place and no force flag
  \<open>generate_fab\<close> returns 1 and the process exits with status 0; with a drill export that
  fails \<open>generate_fab\<close> returns 2 and the process exits with status 0. And a position export
  that fails before it has written its file is an external command failure that ends in
  \<open>FileNotFoundError\<close> from the removal of the temporary file: no code is returned and
  the exit status is 1.
\<close>

theorem main_drops_the_error_code:
  "fst (generate_fab (example_env [] [] []) ''board'' None None ''fab'' False None
          (fresh_world\<lparr>fs := \<lparr>files = Map.empty, dirs = (\<lambda>p. p = ''fab'')\<rparr>\<rparr>))
     = Inr (Some 1) \<and>
   fst (main (example_env [] [] []) ''board'' None None ''fab'' False None
          (fresh_world\<lparr>fs := \<lparr>files = Map.empty, dirs = (\<lambda>p. p = ''fab'')\<rparr>\<rparr>))
     = 0 \<and>
   fst (generate_fab (example_env ''drill'' [] []) ''board'' None None ''fab'' False None
          fresh_world)
     = Inr (Some 2) \<and>
   fst (main (example_env ''drill'' [] []) ''board'' None None ''fab'' False None fresh_world)
     = 0 \<and>
   fst (generate_fab (example_env ''pos'' fixups_R1_text []) ''board'' None None ''fab'' False None
          fresh_world)
     = Inl (FileNotFoundError ''fab/pre-fixup-pos.pos'') \<and>
   fst (main (example_env ''pos'' fixups_R1_text []) ''board'' None None ''fab'' False None
          fresh_world)
     = 1"
proof -
  have conflict: "fst (generate_fab (example_env [] [] []) ''board'' None None ''fab'' False None
          (fresh_world\<lparr>fs := \<lparr>files = Map.empty, dirs = (\<lambda>p. p = ''fab'')\<rparr>\<rparr>))
     = Inr (Some 1)"
    by (simp add: fab_defs fresh_world_def)
  have drill: "fst (generate_fab (example_env ''drill'' [] []) ''board'' None None ''fab'' False
          None fresh_world)
     = Inr (Some 2)"
    by (simp add: fab_defs step_defs example_defs Let_def)
  have pos: "fst (generate_fab (example_env ''pos'' fixups_R1_text []) ''board'' None None ''fab''
          False None fresh_world)
     = Inl (FileNotFoundError ''fab/pre-fixup-pos.pos'')"
    by (simp add: fab_defs step_defs example_defs fixups_R1_text_def dict_row_def Let_def)
  from conflict drill pos show ?thesis
    by (simp add: main_status)
qed

section \<open>Entry point: exceptions that are not caught\<close>

text \<open>An exception that ends the run of the steps ends the \<open>try\<close> block with it.\<close>

lemma fab_body_step_failure:
  assumes "\<not> (dirs (fs w) output' \<and> \<not> force)"
      and "os_makedirs output' (if dirs (fs w) output' then rmtree output' w else w) = (Inr (), w2)"
      and "run_steps E fab_steps
             \<lparr>kicad_path = kicad_path', output = output', pcb = pcb', schema = schema',
              project_base = basename project, pos_fixups = []\<rparr>
             (click_echo (Plain (''Using '' @ kicad_path' @
                '' to generate fabraction outputs for PCB '' @ pcb' @
                '' and schema '' @ schema')) w2) = (Inl e, ec', w4)"
  shows "fab_body E project schema' pcb' output' force kicad_path' w = (Inl e, w4)"
proof -
  from assms(1) have free: "(dirs (fs w) output' \<and> \<not> force) = False"
    by simp
  show ?thesis
    by (simp only: fab_body_def Let_def free if_False assms(2) assms(3) prod.case sum.case)
qed

text \<open>
  Claim C10. The handler of \<open>generate_fab\<close> catches \<open>ScriptError\<close> only. Any other
  exception raised inside the \<open>try\<close> block, and with it any such exception raised by a step
  (a failed removal of the temporary file, a reference missing from the fixups map, the
  discarded header row of an empty raw export), leaves \<open>generate_fab\<close>: the world is as the
  block left it, with neither title nor details echoed, and no error code is returned.
\<close>

theorem non_ScriptError_escapes:
  assumes "fab_body E project
       (path_join project (or_default schema' (basename project @ ''.kicad_sch'')))
       (path_join project (or_default pcb' (basename project @ ''.kicad_pcb'')))
       output' force (or_default kicad_path' (probe_kicad_path w)) w = (Inl e, w1)"
      and "\<not> is_ScriptError e"
  shows "generate_fab E project schema' pcb' output' force kicad_path' w = (Inl e, w1)"
  using assms by (cases e) (simp_all add: generate_fab_def Let_def)

text \<open>A position export that writes an empty file: \<open>next\<close> on the reader raises
  \<open>StopIteration\<close>, which leaves \<open>generate_fab\<close>; only the opening message has been echoed.\<close>

theorem non_ScriptError_escapes_witness:
  "generate_fab (example_env [] fixups_R1_text []) ''board'' None None ''fab'' False None fresh_world =
     (Inl StopIteration,
      snd (fab_body (example_env [] fixups_R1_text []) ''board'' ''board/board.kicad_sch''
             ''board/board.kicad_pcb'' ''fab'' False ''kicad-cli'' fresh_world)) \<and>
   echoed (snd (generate_fab (example_env [] fixups_R1_text []) ''board'' None None ''fab'' False None
                  fresh_world)) =
     [Plain ''Using kicad-cli to generate fabraction outputs for PCB board/board.kicad_pcb and schema board/board.kicad_sch'']"
proof -
  let ?E = "example_env [] fixups_R1_text []"
  let ?b = "fab_body ?E ''board''
       (path_join ''board'' (or_default None (basename ''board'' @ ''.kicad_sch'')))
       (path_join ''board'' (or_default None (basename ''board'' @ ''.kicad_pcb'')))
       ''fab'' False (or_default None (probe_kicad_path fresh_world)) fresh_world"
  have args: "path_join ''board'' (or_default None (basename ''board'' @ ''.kicad_sch'')) = ''board/board.kicad_sch''"
    "path_join ''board'' (or_default None (basename ''board'' @ ''.kicad_pcb'')) = ''board/board.kicad_pcb''"
    "or_default None (probe_kicad_path fresh_world) = ''kicad-cli''"
    by (simp_all add: fab_defs fresh_world_def)
  have "fst ?b = Inl StopIteration"
    by (simp add: fab_defs step_defs example_defs fixups_R1_text_def dict_row_def Let_def)
  then have body: "?b = (Inl StopIteration, snd ?b)"
    by (metis prod.collapse)
  have e: "echoed (snd ?b) =
     [Plain ''Using kicad-cli to generate fabraction outputs for PCB board/board.kicad_pcb and schema board/board.kicad_sch'']"
    by (simp add: fab_defs step_defs example_defs fixups_R1_text_def dict_row_def Let_def)
  have "\<not> is_ScriptError StopIteration"
    by simp
  from non_ScriptError_escapes [OF body this] e
  show ?thesis
    by (simp add: args)
qed

end
